theory Spec2Isabelle
  imports Complex_Main "HOL-Library.AList" "HOL-Library.Product_Lexorder"
begin

section \<open>Numbers and failures of the Python runtime\<close>

text \<open>
  The functions of \<^verbatim>\<open>trackman_utils.py\<close> raise nothing themselves; what can go wrong is
  a division of two Python integers by zero, a positional read past the end of a table
  and a lookup of a missing key.
\<close>

datatype exn = ZeroDivisionError | IndexError | KeyError

text \<open>
  A float is not-a-number, an infinity, or a finite value, kept as the rational it
  denotes. Rounding is the parameter \<open>rnd\<close> of every function below: \<open>rnd q\<close> is the
  double nearest to the rational \<open>q\<close>, be it the exact quotient of a division, the exact
  sum of an addition or the decimal of a literal.
\<close>

datatype pyfloat = NaN | NInf | Fin rat | PInf

text \<open>
  \<open>len(...)\<close> and the literal \<open>0\<close> are Python integers; a count read from a pandas
  series is a numpy integer of 64 bits, kept as the integer it denotes. Adding a numpy
  integer to anything gives a numpy integer, and a sum that leaves the 64 bits wraps
  around (with a warning). The two kinds also differ in what a division by zero does.
\<close>

datatype pynum = PyInt int | NpInt int

definition int64 :: "int \<Rightarrow> int" where
  "int64 n = (n + 2 ^ 63) mod 2 ^ 64 - 2 ^ 63"

fun num_val :: "pynum \<Rightarrow> int" where
  "num_val (PyInt a) = a"
| "num_val (NpInt a) = a"

fun num_add :: "pynum \<Rightarrow> pynum \<Rightarrow> pynum" where
  "num_add (PyInt a) (PyInt b) = PyInt (a + b)"
| "num_add x y = NpInt (int64 (num_val x + num_val y))"

text \<open>numpy's true division: a zero divisor gives not-a-number or an infinity (and a warning).\<close>

definition np_truediv :: "(rat \<Rightarrow> rat) \<Rightarrow> rat \<Rightarrow> rat \<Rightarrow> pyfloat" where
  "np_truediv rnd a b =
     (if b = 0 then (if a = 0 then NaN else if 0 < a then PInf else NInf)
      else Fin (rnd (a / b)))"

text \<open>
  The operator \<open>/\<close>: two Python integers raise on a zero divisor and give the rounded
  exact quotient otherwise. Anything else is numpy's division of two doubles, to which
  it converts the integers first: exactly up to \<open>2 ^ 53\<close>, rounded beyond.
\<close>

definition to_double :: "(rat \<Rightarrow> rat) \<Rightarrow> int \<Rightarrow> rat" where
  "to_double rnd n = (if \<bar>n\<bar> \<le> 2 ^ 53 then of_int n else rnd (of_int n))"

fun truediv :: "(rat \<Rightarrow> rat) \<Rightarrow> pynum \<Rightarrow> pynum \<Rightarrow> exn + pyfloat" where
  "truediv rnd (PyInt a) (PyInt b) =
     (if b = 0 then Inl ZeroDivisionError else Inr (Fin (rnd (of_int a / of_int b))))"
| "truediv rnd x y = Inr (np_truediv rnd (to_double rnd (num_val x)) (to_double rnd (num_val y)))"

definition len :: "'a list \<Rightarrow> pynum" where
  "len xs = PyInt (int (length xs))"

text \<open>Sequencing: the first exception ends the call.\<close>

fun and_then :: "exn + 'a \<Rightarrow> ('a \<Rightarrow> exn + 'b) \<Rightarrow> exn + 'b" where
  "and_then (Inl e) f = Inl e"
| "and_then (Inr x) f = f x"

fun for_each :: "('a \<Rightarrow> 's \<Rightarrow> exn + 's) \<Rightarrow> 'a list \<Rightarrow> 's \<Rightarrow> exn + 's" where
  "for_each body [] s = Inr s"
| "for_each body (x # xs) s = and_then (body x s) (for_each body xs)"


section \<open>The public feed: \<open>agg_statcast_pitchers\<close>\<close>

text \<open>
  One row of the public feed's event table, with the columns the functions read.
  \<open>woba_value\<close> and \<open>woba_denom\<close> are missing (\<open>None\<close>) on pitches that do not end a
  plate appearance. \<open>Series.sum\<close> is pandas' own: it is the parameter \<open>fsum\<close> of the
  aggregator, the double that pandas returns for a column (missing entries skipped, the
  additions rounded in the order pandas makes them).
\<close>

record statcast_row =
  description :: string
  events :: string
  strikes :: int
  pitch_type :: string
  woba_value :: "rat option"
  woba_denom :: "rat option"

record rates =
  putaway_rate :: pyfloat
  whiff_rate :: pyfloat
  k_rate :: pyfloat
  bb_rate :: pyfloat
  woba :: pyfloat

definition is_appearance :: "statcast_row \<Rightarrow> bool" where
  "is_appearance r \<longleftrightarrow>
     description r \<in> set [''hit_by_pitch'', ''hit_into_play'', ''hit_into_play_no_out'',
                          ''hit_into_play_score'']
     \<or> events r \<in> set [''strikeout'', ''walk'']"

definition is_putaway :: "statcast_row \<Rightarrow> bool" where
  "is_putaway r \<longleftrightarrow>
     description r \<in> set [''swinging_strike'', ''swinging_strike_blocked'', ''called_strike'']"

definition is_whiff :: "statcast_row \<Rightarrow> bool" where
  "is_whiff r \<longleftrightarrow> description r \<in> set [''swinging_strike'', ''swinging_strike_blocked'']"

definition is_swing :: "statcast_row \<Rightarrow> bool" where
  "is_swing r \<longleftrightarrow>
     description r \<in> set [''swinging_strike'', ''swinging_strike_blocked'', ''hit_into_play'',
                          ''hit_into_play_no_out'', ''hit_into_play_score'', ''foul_tip'',
                          ''foul'', ''foul_bunt'']"

definition agg_statcast_pitchers ::
    "(rat \<Rightarrow> rat) \<Rightarrow> (rat option list \<Rightarrow> rat) \<Rightarrow> statcast_row list \<Rightarrow> int \<Rightarrow> exn + rates" where
  "agg_statcast_pitchers rnd fsum pitcher min_batters_faced =
     (let appearances = len (filter is_appearance pitcher) in
      if num_val appearances < min_batters_faced
      then Inr \<lparr>putaway_rate = NaN, whiff_rate = NaN, k_rate = NaN, bb_rate = NaN, woba = NaN\<rparr>
      else
        let pitcher_2str = filter (\<lambda>r. strikes r = 2) pitcher;
            putaways = len (filter is_putaway pitcher_2str)
        in and_then (truediv rnd putaways (len pitcher_2str)) (\<lambda>putaway.
        let whiffs = len (filter is_whiff pitcher);
            swings = len (filter is_swing pitcher)
        in and_then (truediv rnd whiffs swings) (\<lambda>whiff.
        let strikeouts = len (filter (\<lambda>r. events r = ''strikeout'') pitcher)
        in and_then (truediv rnd strikeouts appearances) (\<lambda>k.
        let walks = len (filter (\<lambda>r. events r = ''walk'') pitcher)
        in and_then (truediv rnd walks appearances) (\<lambda>bb.
        let w = np_truediv rnd (fsum (map woba_value pitcher)) (fsum (map woba_denom pitcher))
        in Inr \<lparr>putaway_rate = putaway, whiff_rate = whiff, k_rate = k, bb_rate = bb,
                woba = w\<rparr>)))))"


section \<open>The percentile ranker: \<open>percentile\<close>\<close>

text \<open>
  A row of the population table gives a float for each column name. Floats are ordered
  by \<open>float_key\<close>; \<open>sort_values\<close> puts not-a-number last, and a comparison with
  not-a-number is false. Rows with equal keys carry equal values of the statistic, so the
  order pandas leaves them in does not change what the scan reads.
\<close>

type_synonym stats_row = "string \<Rightarrow> pyfloat"

fun float_key :: "pyfloat \<Rightarrow> nat \<times> rat" where
  "float_key NInf = (0, 0)"
| "float_key (Fin q) = (1, q)"
| "float_key PInf = (2, 0)"
| "float_key NaN = (3, 0)"

definition float_gt :: "pyfloat \<Rightarrow> pyfloat \<Rightarrow> bool" where
  "float_gt a b \<longleftrightarrow> a \<noteq> NaN \<and> b \<noteq> NaN \<and> float_key b < float_key a"

definition float_le :: "pyfloat \<Rightarrow> pyfloat \<Rightarrow> bool" where
  "float_le a b \<longleftrightarrow> a \<noteq> NaN \<and> b \<noteq> NaN \<and> float_key a \<le> float_key b"

definition sort_values :: "string \<Rightarrow> stats_row list \<Rightarrow> stats_row list" where
  "sort_values stat rows = sort_key (\<lambda>r. float_key (r stat)) rows"

text \<open>
  The loop \<open>while val > sorted_rates.iloc[i][stat]: i += 1\<close>. \<open>iloc\<close> raises on a
  position that is not in the table.
\<close>

function scan :: "pyfloat \<Rightarrow> stats_row list \<Rightarrow> string \<Rightarrow> nat \<Rightarrow> exn + nat" where
  "scan val sorted_rates stat i =
     (if length sorted_rates \<le> i then Inl IndexError
      else if float_gt val ((sorted_rates ! i) stat) then scan val sorted_rates stat (i + 1)
      else Inr i)"
  by pat_completeness auto
termination
  by (relation "measure (\<lambda>(val, sorted_rates, stat, i). length sorted_rates - i)") auto

declare scan.simps [simp del]

definition percentile :: "(rat \<Rightarrow> rat) \<Rightarrow> pyfloat \<Rightarrow> stats_row list \<Rightarrow> string \<Rightarrow> exn + pyfloat" where
  "percentile rnd val stats_by_pitcher stat =
     (let sorted_rates = sort_values stat stats_by_pitcher in
      and_then (scan val sorted_rates stat 0) (\<lambda>i.
        truediv rnd (PyInt (int i)) (len sorted_rates)))"


section \<open>The proprietary feed\<close>

text \<open>
  One row of the proprietary feed's event table. Plate locations are doubles, kept as
  the rationals they denote.
\<close>

record trackman_row =
  tagged_pitch_type :: string
  pitch_call :: string
  plate_loc_height :: rat
  plate_loc_side :: rat
  play_result :: string
  k_or_bb :: string

text \<open>
  The outcome counts of one pitch type are a pandas series: index labels with their
  counts, in index order. \<open>calls_by_pitch\<close> maps a pitch type to its series. A count is
  read as the 64 bits the series holds.
\<close>

type_synonym series = "(string \<times> int) list"

type_synonym calls = "string \<rightharpoonup> series"

definition index :: "series \<Rightarrow> string list" where
  "index s = map fst s"

definition contains :: "series \<Rightarrow> string \<Rightarrow> bool" where
  "contains s label \<longleftrightarrow> label \<in> set (index s)"

definition loc :: "series \<Rightarrow> string \<Rightarrow> exn + pynum" where
  "loc s label = (case map_of s label of None \<Rightarrow> Inl KeyError | Some c \<Rightarrow> Inr (NpInt (int64 c)))"

subsection \<open>\<open>compute_putaway\<close>\<close>

text \<open>The pair carried through the loops is \<open>(total, total_k)\<close>.\<close>

definition putaway_row :: "series \<Rightarrow> string \<Rightarrow> pynum \<times> pynum \<Rightarrow> exn + pynum \<times> pynum" where
  "putaway_row s row acc =
     (case acc of (total', total_k) \<Rightarrow>
        and_then (loc s row) (\<lambda>c.
          let total_k = (if row = ''StrikeSwinging'' \<or> row = ''StrikeCalled''
                         then num_add total_k c else total_k)
          in Inr (num_add total' c, total_k)))"

definition putaway_pitch :: "calls \<Rightarrow> string \<Rightarrow> pynum \<times> pynum \<Rightarrow> exn + pynum \<times> pynum" where
  "putaway_pitch calls_by_pitch pitch acc =
     (case calls_by_pitch pitch of
        None \<Rightarrow> Inr acc
      | Some s \<Rightarrow> for_each (putaway_row s) (index s) acc)"

definition compute_putaway :: "(rat \<Rightarrow> rat) \<Rightarrow> trackman_row list \<Rightarrow> calls \<Rightarrow> exn + pyfloat" where
  "compute_putaway rnd df calls_by_pitch =
     and_then (for_each (putaway_pitch calls_by_pitch) (remdups (map tagged_pitch_type df))
                 (PyInt 0, PyInt 0))
       (\<lambda>(total', total_k). truediv rnd total_k total')"

subsection \<open>\<open>parse_woba\<close> and \<open>parse_woba_denom\<close>\<close>

definition getitem :: "(string \<rightharpoonup> 'v) \<Rightarrow> string \<Rightarrow> exn + 'v" where
  "getitem table k = (case table k of None \<Rightarrow> Inl KeyError | Some v \<Rightarrow> Inr v)"

definition parse_woba :: "trackman_row \<Rightarrow> (string \<rightharpoonup> pyfloat) \<Rightarrow> exn + pyfloat" where
  "parse_woba row weights =
     (if play_result row \<noteq> ''Undefined'' then getitem weights (play_result row)
      else if k_or_bb row \<noteq> ''Undefined'' then getitem weights (k_or_bb row)
      else Inr NaN)"

definition parse_woba_denom :: "trackman_row \<Rightarrow> (string \<rightharpoonup> pyfloat) \<Rightarrow> exn + pyfloat" where
  "parse_woba_denom row denoms =
     (if play_result row \<noteq> ''Undefined'' then getitem denoms (play_result row)
      else if k_or_bb row \<noteq> ''Undefined'' then getitem denoms (k_or_bb row)
      else Inr (Fin 0))"

subsection \<open>\<open>parse_whiff\<close> and \<open>parse_whiff_statcast\<close>\<close>

text \<open>\<open>name\<close> is \<open>row.name\<close>, the pitch type the row of the summary table stands for.\<close>

definition parse_whiff :: "(rat \<Rightarrow> rat) \<Rightarrow> string \<Rightarrow> calls \<Rightarrow> exn + pyfloat" where
  "parse_whiff rnd name calls_by_pitch =
     (case calls_by_pitch name of
        None \<Rightarrow> Inr NaN
      | Some s \<Rightarrow>
          and_then (if contains s ''StrikeSwinging''
                    then and_then (loc s ''StrikeSwinging'') (\<lambda>whiffs.
                           Inr (whiffs, num_add (PyInt 0) whiffs))
                    else Inr (PyInt 0, PyInt 0)) (\<lambda>(whiffs, swings).
          and_then (if contains s ''FoulBall''
                    then and_then (loc s ''FoulBall'') (\<lambda>c. Inr (num_add swings c))
                    else Inr swings) (\<lambda>swings.
          and_then (if contains s ''InPlay''
                    then and_then (loc s ''InPlay'') (\<lambda>c. Inr (num_add swings c))
                    else Inr swings) (\<lambda>swings.
          if 0 < num_val swings then truediv rnd whiffs swings else Inr NaN))))"

definition parse_whiff_statcast :: "(rat \<Rightarrow> rat) \<Rightarrow> string \<Rightarrow> statcast_row list \<Rightarrow> exn + pyfloat" where
  "parse_whiff_statcast rnd name all_stats =
     (let all_stats_pitch = filter (\<lambda>r. pitch_type r = name) all_stats;
          whiffs = len (filter is_whiff all_stats_pitch);
          swings = len (filter is_swing all_stats_pitch)
      in if num_val swings = 0 then Inr NaN else truediv rnd whiffs swings)"

subsection \<open>\<open>parse_putaway\<close> and \<open>parse_prop\<close>\<close>

definition parse_putaway_row :: "series \<Rightarrow> bool \<Rightarrow> string \<Rightarrow> pynum \<times> pynum \<Rightarrow> exn + pynum \<times> pynum" where
  "parse_putaway_row s statcast outcome acc =
     (case acc of (total_k, total') \<Rightarrow>
        and_then (if \<not> statcast
                  then (if outcome = ''StrikeSwinging'' \<or> outcome = ''StrikeCalled''
                        then and_then (loc s outcome) (\<lambda>c. Inr (num_add total_k c))
                        else Inr total_k)
                  else (if outcome \<in> set [''swinging_strike'', ''swinging_strike_blocked'',
                                           ''called_strike'']
                        then and_then (loc s outcome) (\<lambda>c. Inr (num_add total_k c))
                        else Inr total_k)) (\<lambda>total_k.
        and_then (loc s outcome) (\<lambda>c. Inr (total_k, num_add total' c))))"

definition parse_putaway :: "(rat \<Rightarrow> rat) \<Rightarrow> string \<Rightarrow> calls \<Rightarrow> bool \<Rightarrow> exn + pyfloat" where
  "parse_putaway rnd name calls_by_pitch statcast =
     (case calls_by_pitch name of
        Some s \<Rightarrow>
          and_then (for_each (parse_putaway_row s statcast) (index s) (PyInt 0, PyInt 0))
            (\<lambda>(total_k, total'). truediv rnd total_k total')
      | None \<Rightarrow> Inr NaN)"

text \<open>
  \<open>parse_prop\<close> reads the column \<open>tagged_pitch_type\<close> of the proprietary feed or the
  column \<open>pitch_type\<close> of the public one; the table is given as the list of that
  column's labels.
\<close>

definition parse_prop :: "(rat \<Rightarrow> rat) \<Rightarrow> string \<Rightarrow> string list \<Rightarrow> exn + pyfloat" where
  "parse_prop rnd name df = truediv rnd (len (filter (\<lambda>t. t = name) df)) (len df)"


section \<open>The segmentation report: \<open>whiff_by_height\<close>\<close>

text \<open>
  The report prints and plots; it returns nothing. Its model returns the lines printed
  and the plots shown, in order, and the exception that ended the call, if one did.
\<close>

type_synonym band = "rat \<times> rat"

datatype line =
    Info string band
  | CleanRate string pyfloat
  | WhiffRate string pyfloat
  | Whiffs string pynum
  | CalledStrikes string pynum
  | Swings string pynum
  | Strikes string pynum
  | Chances string pynum
  | Plot "trackman_row list"
  | Frequencies string "(band \<times> pyfloat) list"

text \<open>
  The bounds of the strike zone are doubles: \<open>18.29/12\<close> is the rounded quotient of the
  double nearest to 18.29 by 12, and so on.
\<close>

definition lowerb :: "(rat \<Rightarrow> rat) \<Rightarrow> rat" where
  "lowerb rnd = rnd (rnd (1829 / 100) / 12)"

definition upperb :: "(rat \<Rightarrow> rat) \<Rightarrow> rat" where
  "upperb rnd = rnd (lowerb rnd + rnd (rnd (2579 / 100) / 12))"

definition leftb :: "(rat \<Rightarrow> rat) \<Rightarrow> rat" where
  "leftb rnd = rnd (- rnd (997 / 100) / 12)"

definition rightb :: "(rat \<Rightarrow> rat) \<Rightarrow> rat" where
  "rightb rnd = rnd (leftb rnd + rnd (rnd (1994 / 100) / 12))"

definition in_bucket :: "string \<Rightarrow> band \<Rightarrow> trackman_row \<Rightarrow> bool" where
  "in_bucket pitch height r \<longleftrightarrow>
     tagged_pitch_type r = pitch \<and> fst height < plate_loc_height r
     \<and> plate_loc_height r \<le> snd height"

definition in_zone :: "(rat \<Rightarrow> rat) \<Rightarrow> trackman_row \<Rightarrow> bool" where
  "in_zone rnd r \<longleftrightarrow>
     lowerb rnd \<le> plate_loc_height r \<and> plate_loc_height r \<le> upperb rnd
     \<and> leftb rnd \<le> plate_loc_side r \<and> plate_loc_side r \<le> rightb rnd"

text \<open>
  One pass of the inner loop: the lines it prints, and the size of the bucket that goes
  into \<open>freqs\<close>. The quotient \<open>clean/chances\<close> is taken when its line is printed, after
  the header.
\<close>

definition bucket :: "(rat \<Rightarrow> rat) \<Rightarrow> string \<Rightarrow> trackman_row list \<Rightarrow> band \<Rightarrow> line list \<times> (exn + int)" where
  "bucket rnd pitch df height =
     (let df_pitch = filter (in_bucket pitch height) df;
          whiffs = len (filter (\<lambda>r. pitch_call r = ''StrikeSwinging'') df_pitch);
          swings = len (filter (\<lambda>r. pitch_call r \<in> set [''StrikeSwinging'', ''InPlay'',
                                                           ''FoulBall'']) df_pitch);
          clean = len (filter (\<lambda>r. pitch_call r \<in> set [''StrikeSwinging'', ''StrikeCalled''])
                         df_pitch);
          chances = len df_pitch;
          called_str = len (filter (\<lambda>r. pitch_call r = ''StrikeCalled'') df_pitch);
          strikes = len (filter (in_zone rnd) df_pitch)
      in case (if 0 < num_val swings then truediv rnd whiffs swings else Inr NaN) of
           Inl e \<Rightarrow> ([Info pitch height], Inl e)
         | Inr whiff_rate' \<Rightarrow>
             (case truediv rnd clean chances of
                Inl e \<Rightarrow> ([Info pitch height], Inl e)
              | Inr clean_rate \<Rightarrow>
                  ([Info pitch height, CleanRate pitch clean_rate, WhiffRate pitch whiff_rate',
                    Whiffs pitch whiffs, CalledStrikes pitch called_str, Swings pitch swings,
                    Strikes pitch strikes, Chances pitch chances, Plot df_pitch],
                   Inr (int (length df_pitch)))))"

text \<open>
  The inner loop. \<open>freqs\<close> is a dictionary keyed by the band: a band given twice keeps
  its first place and takes the later count.
\<close>

fun height_loop :: "(rat \<Rightarrow> rat) \<Rightarrow> string \<Rightarrow> trackman_row list \<Rightarrow> band list \<Rightarrow> (band \<times> int) list
    \<Rightarrow> line list \<times> (exn + (band \<times> int) list)" where
  "height_loop rnd pitch df [] freqs = ([], Inr freqs)"
| "height_loop rnd pitch df (height # heights) freqs =
     (case bucket rnd pitch df height of
        (out, Inl e) \<Rightarrow> (out, Inl e)
      | (out, Inr n) \<Rightarrow>
          (case height_loop rnd pitch df heights (AList.update height n freqs) of
             (out', r) \<Rightarrow> (out @ out', r)))"

text \<open>\<open>for height in freqs: freqs[height] /= total\<close>\<close>

fun normalise :: "(rat \<Rightarrow> rat) \<Rightarrow> (band \<times> int) list \<Rightarrow> int \<Rightarrow> exn + (band \<times> pyfloat) list" where
  "normalise rnd [] total' = Inr []"
| "normalise rnd ((height, n) # freqs) total' =
     and_then (truediv rnd (PyInt n) (PyInt total')) (\<lambda>q.
     and_then (normalise rnd freqs total') (\<lambda>rest. Inr ((height, q) # rest)))"

definition pitch_report :: "(rat \<Rightarrow> rat) \<Rightarrow> string \<Rightarrow> trackman_row list \<Rightarrow> band list
    \<Rightarrow> line list \<times> exn option" where
  "pitch_report rnd pitch df heights =
     (case height_loop rnd pitch df heights [] of
        (out, Inl e) \<Rightarrow> (out, Some e)
      | (out, Inr freqs) \<Rightarrow>
          (let total' = sum_list (map snd freqs) in
           case normalise rnd freqs total' of
             Inl e \<Rightarrow> (out, Some e)
           | Inr fr \<Rightarrow> (out @ [Frequencies pitch fr], None)))"

fun whiff_by_height :: "(rat \<Rightarrow> rat) \<Rightarrow> string list \<Rightarrow> trackman_row list \<Rightarrow> band list \<Rightarrow> bool
    \<Rightarrow> line list \<times> exn option" where
  "whiff_by_height rnd [] df heights putaway = ([], None)"
| "whiff_by_height rnd (pitch # pitches) df heights putaway =
     (case pitch_report rnd pitch df heights of
        (out, Some e) \<Rightarrow> (out, Some e)
      | (out, None) \<Rightarrow>
          (case whiff_by_height rnd pitches df heights putaway of
             (out', r) \<Rightarrow> (out @ out', r)))"


section \<open>The whiff rate as the specification words it\<close>

text \<open>
  The specification of the two whiff aggregators: the whiff count is the count of the
  swinging outcomes, the swing count is the count of the swinging outcomes, the fouls
  and the balls in play, both restricted to one pitch type; the result is their
  quotient, or not-a-number when the swing count is zero. These definitions follow the
  specification, not the code; the code is compared with them below.
\<close>

definition spec_ratio :: "(rat \<Rightarrow> rat) \<Rightarrow> int \<Rightarrow> int \<Rightarrow> pyfloat" where
  "spec_ratio rnd whiff_count swing_count =
     (if swing_count = 0 then NaN else Fin (rnd (of_int whiff_count / of_int swing_count)))"

definition spec_count :: "string list \<Rightarrow> series \<Rightarrow> int" where
  "spec_count labels s = sum_list (map snd (filter (\<lambda>(label, c). label \<in> set labels) s))"

text \<open>The counts of one pitch type; a pitch type that the mapping lacks has none.\<close>

definition series_of :: "calls \<Rightarrow> string \<Rightarrow> series" where
  "series_of calls_by_pitch name = (case calls_by_pitch name of None \<Rightarrow> [] | Some s \<Rightarrow> s)"

definition spec_whiff :: "(rat \<Rightarrow> rat) \<Rightarrow> string \<Rightarrow> calls \<Rightarrow> pyfloat" where
  "spec_whiff rnd name calls_by_pitch =
     (let s = series_of calls_by_pitch name
      in spec_ratio rnd (spec_count [''StrikeSwinging''] s)
           (spec_count ([''StrikeSwinging''] @ [''FoulBall''] @ [''InPlay'']) s))"

definition spec_whiff_statcast :: "(rat \<Rightarrow> rat) \<Rightarrow> string \<Rightarrow> statcast_row list \<Rightarrow> pyfloat" where
  "spec_whiff_statcast rnd name all_stats =
     (let rows = filter (\<lambda>r. pitch_type r = name) all_stats;
          swinging = [''swinging_strike'', ''swinging_strike_blocked''];
          fouls = [''foul_tip'', ''foul'', ''foul_bunt''];
          in_play = [''hit_into_play'', ''hit_into_play_no_out'', ''hit_into_play_score'']
      in spec_ratio rnd
           (int (length (filter (\<lambda>r. description r \<in> set swinging) rows)))
           (int (length (filter (\<lambda>r. description r \<in> set (swinging @ fouls @ in_play)) rows))))"


section \<open>The rate aggregator\<close>

text \<open>
  C3. When the number of appearances (rows whose description is hit-by-pitch or one of
  the three in-play variants, or whose event is a strikeout or a walk) is below the
  threshold, the aggregator returns not-a-number in all five fields, whatever the rest
  of the table holds.
\<close>

theorem agg_below_threshold_nan:
  "int (length (filter is_appearance pitcher)) < min_batters_faced \<Longrightarrow>
   agg_statcast_pitchers rnd fsum pitcher min_batters_faced =
     Inr \<lparr>putaway_rate = NaN, whiff_rate = NaN, k_rate = NaN, bb_rate = NaN, woba = NaN\<rparr>"
  by (simp add: agg_statcast_pitchers_def len_def)

text \<open>
  One appearance against a threshold of five. The same table against a threshold of one
  raises (see below), so the early return is what gives the result here.
\<close>

theorem agg_below_threshold_nan_witness:
  "int (length (filter is_appearance
      [\<lparr>description = ''hit_into_play'', events = ''field_out'', strikes = 0,
        pitch_type = ''FF'', woba_value = Some 0, woba_denom = Some 1\<rparr>])) < 5
   \<and> agg_statcast_pitchers id
      (\<lambda>column. sum_list (map (\<lambda>x. case x of None \<Rightarrow> 0 | Some v \<Rightarrow> v) column))
      [\<lparr>description = ''hit_into_play'', events = ''field_out'', strikes = 0,
        pitch_type = ''FF'', woba_value = Some 0, woba_denom = Some 1\<rparr>] 5 =
     Inr \<lparr>putaway_rate = NaN, whiff_rate = NaN, k_rate = NaN, bb_rate = NaN, woba = NaN\<rparr>"
  using agg_below_threshold_nan [of
      "[\<lparr>description = ''hit_into_play'', events = ''field_out'', strikes = 0,
        pitch_type = ''FF'', woba_value = Some 0, woba_denom = Some 1\<rparr>]" 5 id
      "\<lambda>column. sum_list (map (\<lambda>x. case x of None \<Rightarrow> 0 | Some v \<Rightarrow> v) column)"]
  by (simp add: is_appearance_def)

text \<open>
  Past the threshold, the quotients of the aggregator are quotients of Python integers:
  a table with no two-strike row raises.
\<close>

lemma agg_no_two_strike_raises:
  "min_batters_faced \<le> int (length (filter is_appearance pitcher)) \<Longrightarrow>
   filter (\<lambda>r. strikes r = 2) pitcher = [] \<Longrightarrow>
   agg_statcast_pitchers rnd fsum pitcher min_batters_faced = Inl ZeroDivisionError"
  by (simp add: agg_statcast_pitchers_def len_def Let_def)

text \<open>
  C1. The claim is that a zero denominator gives not-a-number in every ratio, and in
  particular that an empty two-strike subset gives a not-a-number \<open>putaway_rate\<close>. The
  code divides two Python integers there: a pitcher whose only batter put the first
  pitch in play meets a threshold of one and has no two-strike pitch, and the call ends
  in \<open>ZeroDivisionError\<close>.
\<close>

theorem agg_empty_two_strike_subset_raises:
  "agg_statcast_pitchers rnd fsum
      [\<lparr>description = ''hit_into_play'', events = ''field_out'', strikes = 0,
        pitch_type = ''FF'', woba_value = Some 0, woba_denom = Some 1\<rparr>] 1 =
     Inl ZeroDivisionError"
  by (simp add: agg_statcast_pitchers_def len_def Let_def is_appearance_def)


section \<open>The grouped putaway aggregator\<close>

lemma for_each_skip:
  "(\<And>x s. x \<in> set xs \<Longrightarrow> body x s = Inr s) \<Longrightarrow> for_each body xs s = Inr s"
  by (induction xs) simp_all

text \<open>
  C10. When no pitch-type label of the event table is a key of the outcome counts (an
  empty table and an empty mapping included), \<open>total\<close> and \<open>total_k\<close> are still the
  Python integer 0 at the final division, which raises \<open>ZeroDivisionError\<close>.
\<close>

theorem compute_putaway_unmatched_raises:
  "\<forall>pitch \<in> set (map tagged_pitch_type df). calls_by_pitch pitch = None \<Longrightarrow>
   compute_putaway rnd df calls_by_pitch = Inl ZeroDivisionError"
proof -
  assume a: "\<forall>pitch \<in> set (map tagged_pitch_type df). calls_by_pitch pitch = None"
  have "for_each (putaway_pitch calls_by_pitch) (remdups (map tagged_pitch_type df))
          (PyInt 0, PyInt 0) = Inr (PyInt 0, PyInt 0)"
    by (rule for_each_skip) (use a in \<open>auto simp: putaway_pitch_def\<close>)
  then show ?thesis by (simp add: compute_putaway_def)
qed

text \<open>A table of sliders against counts that know the fastball only.\<close>

theorem compute_putaway_unmatched_raises_witness:
  "map tagged_pitch_type
       [\<lparr>tagged_pitch_type = ''Slider'', pitch_call = ''StrikeCalled'', plate_loc_height = 2,
         plate_loc_side = 0, play_result = ''Undefined'', k_or_bb = ''Undefined''\<rparr>] = [''Slider'']
   \<and> [''Fastball'' \<mapsto> [(''StrikeSwinging'', 3::int)]] ''Slider'' = None
   \<and> compute_putaway id
       [\<lparr>tagged_pitch_type = ''Slider'', pitch_call = ''StrikeCalled'', plate_loc_height = 2,
         plate_loc_side = 0, play_result = ''Undefined'', k_or_bb = ''Undefined''\<rparr>]
       [''Fastball'' \<mapsto> [(''StrikeSwinging'', 3)]] = Inl ZeroDivisionError"
  using compute_putaway_unmatched_raises [of
       "[\<lparr>tagged_pitch_type = ''Slider'', pitch_call = ''StrikeCalled'', plate_loc_height = 2,
         plate_loc_side = 0, play_result = ''Undefined'', k_or_bb = ''Undefined''\<rparr>]"
       "[''Fastball'' \<mapsto> [(''StrikeSwinging'', 3)]]" id]
  by simp


section \<open>The percentile ranker\<close>

text \<open>What a scan that returns has seen: every position before the result is below the value.\<close>

lemma scan_result:
  "scan val rows stat i = Inr k \<Longrightarrow>
   i \<le> k \<and> k < length rows \<and> \<not> float_gt val ((rows ! k) stat)
   \<and> (\<forall>j. i \<le> j \<and> j < k \<longrightarrow> float_gt val ((rows ! j) stat))"
proof (induction val rows stat i rule: scan.induct)
  case (1 val rows stat i)
  show ?case
  proof (cases "length rows \<le> i")
    case True
    with "1.prems" show ?thesis by (simp add: scan.simps [of val rows stat i])
  next
    case inside: False
    show ?thesis
    proof (cases "float_gt val ((rows ! i) stat)")
      case True
      with inside "1.prems" have "scan val rows stat (i + 1) = Inr k"
        by (simp add: scan.simps [of val rows stat i])
      with "1.IH" inside True
      have ih: "i + 1 \<le> k \<and> k < length rows \<and> \<not> float_gt val ((rows ! k) stat)
        \<and> (\<forall>j. i + 1 \<le> j \<and> j < k \<longrightarrow> float_gt val ((rows ! j) stat))"
        by simp
      have "float_gt val ((rows ! j) stat)" if "i \<le> j" "j < k" for j
      proof (cases "j = i")
        case True with \<open>float_gt val ((rows ! i) stat)\<close> show ?thesis by simp
      next
        case False with that ih show ?thesis by simp
      qed
      with ih show ?thesis by simp
    next
      case False
      with inside "1.prems" have "k = i"
        by (simp add: scan.simps [of val rows stat i])
      with inside False show ?thesis by auto
    qed
  qed
qed

lemma scan_past_end:
  "\<forall>j < length rows. float_gt val ((rows ! j) stat) \<Longrightarrow> scan val rows stat i = Inl IndexError"
proof (induction val rows stat i rule: scan.induct)
  case (1 val rows stat i)
  then show ?case by (simp add: scan.simps [of val rows stat i])
qed

text \<open>
  A value above the whole population (an empty population included) walks the scan off
  the end of the table.
\<close>

lemma percentile_above_all:
  "\<forall>r \<in> set stats_by_pitcher. float_gt val (r stat) \<Longrightarrow>
   percentile rnd val stats_by_pitcher stat = Inl IndexError"
proof -
  assume a: "\<forall>r \<in> set stats_by_pitcher. float_gt val (r stat)"
  have "\<forall>j < length (sort_values stat stats_by_pitcher).
          float_gt val ((sort_values stat stats_by_pitcher ! j) stat)"
  proof (intro allI impI)
    fix j assume "j < length (sort_values stat stats_by_pitcher)"
    then have "sort_values stat stats_by_pitcher ! j \<in> set (sort_values stat stats_by_pitcher)"
      by (rule nth_mem)
    then have "sort_values stat stats_by_pitcher ! j \<in> set stats_by_pitcher"
      by (simp add: sort_values_def)
    with a show "float_gt val ((sort_values stat stats_by_pitcher ! j) stat)" by blast
  qed
  then have "scan val (sort_values stat stats_by_pitcher) stat 0 = Inl IndexError"
    by (rule scan_past_end)
  then show ?thesis by (simp add: percentile_def)
qed

text \<open>
  C2. The claim is that a value above every entry of the population makes the ranker
  return 1.0 without reading past the end. The loop has no bound: for the population
  0.5, 0.6 and the value 0.7 it reads position 2 of a table of two rows and the call
  ends in \<open>IndexError\<close>.
\<close>

theorem percentile_above_population_raises:
  "percentile rnd (Fin (7 / 10)) [\<lambda>stat. Fin (1 / 2), \<lambda>stat. Fin (3 / 5)] ''woba'' = Inl IndexError"
  by (rule percentile_above_all) (simp add: float_gt_def)

lemma float_gt_le_trans: "float_gt a x \<Longrightarrow> float_le a b \<Longrightarrow> float_gt b x"
  by (auto simp: float_gt_def float_le_def)

lemma percentile_example_low:
  "percentile id (Fin (3 / 20)) [\<lambda>stat. Fin (3 / 10), \<lambda>stat. Fin (1 / 10), \<lambda>stat. Fin (1 / 5)] ''woba''
   = Inr (Fin (1 / 3))"
  by (simp add: percentile_def sort_values_def scan.simps float_gt_def len_def)

lemma percentile_example_high:
  "percentile id (Fin (1 / 4)) [\<lambda>stat. Fin (3 / 10), \<lambda>stat. Fin (1 / 10), \<lambda>stat. Fin (1 / 5)] ''woba''
   = Inr (Fin (2 / 3))"
  by (simp add: percentile_def sort_values_def scan.simps float_gt_def len_def)

text \<open>
  C8. For a fixed population and statistic, the ranker is monotone in the value: when it
  returns for \<open>v1\<close> and for \<open>v2\<close> with \<open>v1 \<le> v2\<close>, the first result is at most the
  second. Rounding to the nearest float is monotone, which is all the proof asks of
  \<open>rnd\<close>; the population may hold not-a-number entries.
\<close>

theorem percentile_monotone:
  assumes mono: "mono rnd"
    and le: "float_le v1 v2"
    and p1: "percentile rnd v1 stats_by_pitcher stat = Inr r1"
    and p2: "percentile rnd v2 stats_by_pitcher stat = Inr r2"
  shows "float_le r1 r2"
proof -
  define rows where "rows = sort_values stat stats_by_pitcher"
  from p1 obtain k1 where s1: "scan v1 rows stat 0 = Inr k1"
    and r1: "truediv rnd (PyInt (int k1)) (len rows) = Inr r1"
    unfolding percentile_def rows_def Let_def
    by (cases "scan v1 (sort_values stat stats_by_pitcher) stat 0") auto
  from p2 obtain k2 where s2: "scan v2 rows stat 0 = Inr k2"
    and r2: "truediv rnd (PyInt (int k2)) (len rows) = Inr r2"
    unfolding percentile_def rows_def Let_def
    by (cases "scan v2 (sort_values stat stats_by_pitcher) stat 0") auto
  note c1 = scan_result [OF s1] and c2 = scan_result [OF s2]
  have "k1 \<le> k2"
  proof (rule ccontr)
    assume "\<not> k1 \<le> k2"
    then have "k2 < k1" by simp
    with c1 have "float_gt v1 ((rows ! k2) stat)" by simp
    then have "float_gt v2 ((rows ! k2) stat)" using le by (rule float_gt_le_trans)
    with c2 show False by simp
  qed
  from c1 have n: "0 < length rows" by auto
  from n r1 have e1: "r1 = Fin (rnd (of_nat k1 / of_nat (length rows)))"
    by (auto simp: len_def)
  from n r2 have e2: "r2 = Fin (rnd (of_nat k2 / of_nat (length rows)))"
    by (auto simp: len_def)
  from \<open>k1 \<le> k2\<close> n
  have "(of_nat k1 :: rat) / of_nat (length rows) \<le> of_nat k2 / of_nat (length rows)"
    by (simp add: divide_right_mono)
  with mono have "rnd (of_nat k1 / of_nat (length rows)) \<le> rnd (of_nat k2 / of_nat (length rows))"
    by (rule monoD)
  with e1 e2 show ?thesis by (simp add: float_le_def)
qed

theorem percentile_monotone_witness:
  "mono (id :: rat \<Rightarrow> rat)
   \<and> float_le (Fin (3 / 20)) (Fin (1 / 4))
   \<and> percentile id (Fin (3 / 20)) [\<lambda>stat. Fin (3 / 10), \<lambda>stat. Fin (1 / 10), \<lambda>stat. Fin (1 / 5)] ''woba''
       = Inr (Fin (1 / 3))
   \<and> percentile id (Fin (1 / 4)) [\<lambda>stat. Fin (3 / 10), \<lambda>stat. Fin (1 / 10), \<lambda>stat. Fin (1 / 5)] ''woba''
       = Inr (Fin (2 / 3))
   \<and> float_le (Fin (1 / 3)) (Fin (2 / 3))"
  using percentile_monotone [of id "Fin (3 / 20)" "Fin (1 / 4)"
      "[\<lambda>stat. Fin (3 / 10), \<lambda>stat. Fin (1 / 10), \<lambda>stat. Fin (1 / 5)]" "''woba''"
      "Fin (1 / 3)" "Fin (2 / 3)"]
    percentile_example_low percentile_example_high
  by (simp add: float_le_def mono_def)


section \<open>The wOBA lookups\<close>

text \<open>
  C4. With a play result other than \<open>Undefined\<close>, both lookups read their table at the
  play result; otherwise, with a strikeout/walk label other than \<open>Undefined\<close>, both read
  their table at that label; otherwise the weight is not-a-number and the denominator is
  0. A key that the table lacks is a \<open>KeyError\<close>, as \<open>getitem\<close> says.
\<close>

theorem woba_lookup:
  "(play_result row \<noteq> ''Undefined'' \<longrightarrow>
      parse_woba row weights = getitem weights (play_result row)
      \<and> parse_woba_denom row denoms = getitem denoms (play_result row))
   \<and> (play_result row = ''Undefined'' \<and> k_or_bb row \<noteq> ''Undefined'' \<longrightarrow>
      parse_woba row weights = getitem weights (k_or_bb row)
      \<and> parse_woba_denom row denoms = getitem denoms (k_or_bb row))
   \<and> (play_result row = ''Undefined'' \<and> k_or_bb row = ''Undefined'' \<longrightarrow>
      parse_woba row weights = Inr NaN \<and> parse_woba_denom row denoms = Inr (Fin 0))"
  by (simp add: parse_woba_def parse_woba_denom_def)

theorem woba_lookup_witness:
  "parse_woba \<lparr>tagged_pitch_type = ''Fastball'', pitch_call = ''InPlay'', plate_loc_height = 2,
        plate_loc_side = 0, play_result = ''Single'', k_or_bb = ''Undefined''\<rparr>
      [''Single'' \<mapsto> Fin (9 / 10), ''Strikeout'' \<mapsto> Fin 0] = Inr (Fin (9 / 10))
   \<and> parse_woba_denom \<lparr>tagged_pitch_type = ''Fastball'', pitch_call = ''InPlay'', plate_loc_height = 2,
        plate_loc_side = 0, play_result = ''Single'', k_or_bb = ''Undefined''\<rparr>
      [''Single'' \<mapsto> Fin 1, ''Strikeout'' \<mapsto> Fin 1] = Inr (Fin 1)
   \<and> parse_woba \<lparr>tagged_pitch_type = ''Fastball'', pitch_call = ''InPlay'', plate_loc_height = 2,
        plate_loc_side = 0, play_result = ''Undefined'', k_or_bb = ''Strikeout''\<rparr>
      [''Single'' \<mapsto> Fin (9 / 10), ''Strikeout'' \<mapsto> Fin 0] = Inr (Fin 0)
   \<and> parse_woba_denom \<lparr>tagged_pitch_type = ''Fastball'', pitch_call = ''InPlay'', plate_loc_height = 2,
        plate_loc_side = 0, play_result = ''Undefined'', k_or_bb = ''Strikeout''\<rparr>
      [''Single'' \<mapsto> Fin 1, ''Strikeout'' \<mapsto> Fin 1] = Inr (Fin 1)
   \<and> parse_woba \<lparr>tagged_pitch_type = ''Fastball'', pitch_call = ''InPlay'', plate_loc_height = 2,
        plate_loc_side = 0, play_result = ''Undefined'', k_or_bb = ''Undefined''\<rparr>
      [''Single'' \<mapsto> Fin (9 / 10), ''Strikeout'' \<mapsto> Fin 0] = Inr NaN
   \<and> parse_woba_denom \<lparr>tagged_pitch_type = ''Fastball'', pitch_call = ''InPlay'', plate_loc_height = 2,
        plate_loc_side = 0, play_result = ''Undefined'', k_or_bb = ''Undefined''\<rparr>
      [''Single'' \<mapsto> Fin 1, ''Strikeout'' \<mapsto> Fin 1] = Inr (Fin 0)"
  using woba_lookup [of "\<lparr>tagged_pitch_type = ''Fastball'', pitch_call = ''InPlay'', plate_loc_height = 2,
        plate_loc_side = 0, play_result = ''Single'', k_or_bb = ''Undefined''\<rparr>"
      "[''Single'' \<mapsto> Fin (9 / 10), ''Strikeout'' \<mapsto> Fin 0]" "[''Single'' \<mapsto> Fin 1, ''Strikeout'' \<mapsto> Fin 1]"]
    woba_lookup [of "\<lparr>tagged_pitch_type = ''Fastball'', pitch_call = ''InPlay'', plate_loc_height = 2,
        plate_loc_side = 0, play_result = ''Undefined'', k_or_bb = ''Strikeout''\<rparr>"
      "[''Single'' \<mapsto> Fin (9 / 10), ''Strikeout'' \<mapsto> Fin 0]" "[''Single'' \<mapsto> Fin 1, ''Strikeout'' \<mapsto> Fin 1]"]
    woba_lookup [of "\<lparr>tagged_pitch_type = ''Fastball'', pitch_call = ''InPlay'', plate_loc_height = 2,
        plate_loc_side = 0, play_result = ''Undefined'', k_or_bb = ''Undefined''\<rparr>"
      "[''Single'' \<mapsto> Fin (9 / 10), ''Strikeout'' \<mapsto> Fin 0]" "[''Single'' \<mapsto> Fin 1, ''Strikeout'' \<mapsto> Fin 1]"]
  by (simp add: getitem_def)


section \<open>The per-pitch-type putaway aggregator\<close>

text \<open>
  C6. A pitch type that is not a key of the outcome counts gives not-a-number, for
  either feed.
\<close>

theorem parse_putaway_absent_nan:
  "calls_by_pitch name = None \<Longrightarrow> parse_putaway rnd name calls_by_pitch statcast = Inr NaN"
  by (simp add: parse_putaway_def)

theorem parse_putaway_absent_nan_witness:
  "[''Fastball'' \<mapsto> [(''StrikeSwinging'', 3::int)]] ''Slider'' = None
   \<and> parse_putaway id ''Slider'' [''Fastball'' \<mapsto> [(''StrikeSwinging'', 3)]] True = Inr NaN
   \<and> parse_putaway id ''Slider'' [''Fastball'' \<mapsto> [(''StrikeSwinging'', 3)]] False = Inr NaN"
  using parse_putaway_absent_nan [of "[''Fastball'' \<mapsto> [(''StrikeSwinging'', 3)]]" "''Slider''" id True]
    parse_putaway_absent_nan [of "[''Fastball'' \<mapsto> [(''StrikeSwinging'', 3)]]" "''Slider''" id False]
  by simp

text \<open>The example of the specification under the public feed's vocabulary, for any rounding.\<close>

lemma parse_putaway_fastball_public_value:
  "parse_putaway rnd ''Fastball''
     [''Fastball'' \<mapsto> [(''StrikeSwinging'', 3), (''StrikeCalled'', 2), (''BallCalled'', 5)]] True
   = Inr (Fin (rnd 0))"
  by (simp add: parse_putaway_def index_def parse_putaway_row_def loc_def np_truediv_def
      int64_def to_double_def)

text \<open>
  C5, as stated: with the public feed's vocabulary the counts of the example give 0.5.
  The labels of the example are the proprietary feed's; the public feed's branch counts
  \<open>swinging_strike\<close>, \<open>swinging_strike_blocked\<close> and \<open>called_strike\<close>, matches none of
  them, and the quotient is 0/10.
\<close>

theorem parse_putaway_fastball_public_feed:
  "parse_putaway id ''Fastball''
     [''Fastball'' \<mapsto> [(''StrikeSwinging'', 3), (''StrikeCalled'', 2), (''BallCalled'', 5)]] True
   \<noteq> Inr (Fin (1 / 2))"
  by (simp add: parse_putaway_def index_def parse_putaway_row_def loc_def np_truediv_def
      int64_def to_double_def)

text \<open>
  C5, amended: with the proprietary feed's vocabulary (the flag \<open>statcast\<close> false, its
  default) the counts of the example give 5/10 = 0.5, a value that rounding leaves as
  it is.
\<close>

theorem parse_putaway_fastball_proprietary:
  "rnd (1 / 2) = 1 / 2 \<Longrightarrow>
   parse_putaway rnd ''Fastball''
     [''Fastball'' \<mapsto> [(''StrikeSwinging'', 3), (''StrikeCalled'', 2), (''BallCalled'', 5)]] False
   = Inr (Fin (1 / 2))"
  by (simp add: parse_putaway_def index_def parse_putaway_row_def loc_def np_truediv_def
      int64_def to_double_def)

theorem parse_putaway_fastball_proprietary_witness:
  "id (1 / 2 :: rat) = 1 / 2
   \<and> parse_putaway id ''Fastball''
     [''Fastball'' \<mapsto> [(''StrikeSwinging'', 3), (''StrikeCalled'', 2), (''BallCalled'', 5)]] False
   = Inr (Fin (1 / 2))"
  using parse_putaway_fastball_proprietary [of id]
  by simp


section \<open>The per-pitch-type whiff aggregators\<close>

lemma spec_count_single:
  "distinct (map fst s) \<Longrightarrow>
   spec_count [k] s = (case map_of s k of None \<Rightarrow> 0 | Some c \<Rightarrow> c)"
proof (induction s)
  case Nil
  then show ?case by (simp add: spec_count_def)
next
  case (Cons p s)
  obtain l c where p: "p = (l, c)" by (cases p)
  show ?case
  proof (cases "l = k")
    case True
    with Cons.prems p have "k \<notin> fst ` set s" by simp
    then have "map_of s k = None" by (simp add: map_of_eq_None_iff)
    with Cons p True show ?thesis by (simp add: spec_count_def)
  next
    case False
    with Cons p show ?thesis by (simp add: spec_count_def)
  qed
qed

lemma spec_count_three:
  "a \<noteq> b \<Longrightarrow> a \<noteq> c \<Longrightarrow> b \<noteq> c \<Longrightarrow>
   spec_count [a, b, c] s = spec_count [a] s + spec_count [b] s + spec_count [c] s"
  by (induction s) (auto simp: spec_count_def)

lemma spec_count_nonneg:
  "list_all (\<lambda>c. 0 \<le> c) (map snd s) \<Longrightarrow> 0 \<le> spec_count labels s"
  by (induction s) (auto simp: spec_count_def)

lemma contains_map_of: "contains s k \<longleftrightarrow> map_of s k \<noteq> None"
  by (simp add: contains_def index_def map_of_eq_None_iff)

lemma whiff_step:
  "(if contains s k then and_then (loc s k) (\<lambda>c. Inr (num_add acc c)) else Inr acc)
   = Inr (case map_of s k of None \<Rightarrow> acc | Some c \<Rightarrow> num_add acc (NpInt (int64 c)))"
  by (simp add: contains_map_of loc_def split: option.splits)

lemma parse_whiff_spec:
  assumes d: "distinct (index (series_of calls_by_pitch name))"
    and nn: "list_all (\<lambda>c. 0 \<le> c) (map snd (series_of calls_by_pitch name))"
    and small: "spec_count [''StrikeSwinging'', ''FoulBall'', ''InPlay'']
                  (series_of calls_by_pitch name) \<le> 2 ^ 53"
  shows "parse_whiff rnd name calls_by_pitch = Inr (spec_whiff rnd name calls_by_pitch)"
proof (cases "calls_by_pitch name")
  case None
  then show ?thesis
    by (simp add: parse_whiff_def spec_whiff_def series_of_def spec_count_def spec_ratio_def)
next
  case (Some s)
  with d have ds: "distinct (map fst s)" by (simp add: series_of_def index_def)
  from Some nn have ns: "list_all (\<lambda>c. 0 \<le> c) (map snd s)" by (simp add: series_of_def)
  define w where "w = spec_count [''StrikeSwinging''] s"
  define f where "f = spec_count [''FoulBall''] s"
  define i where "i = spec_count [''InPlay''] s"
  have w: "0 \<le> w" and f: "0 \<le> f" and i: "0 \<le> i"
    unfolding w_def f_def i_def using ns by (rule spec_count_nonneg)+
  have three: "spec_count [''StrikeSwinging'', ''FoulBall'', ''InPlay''] s = w + f + i"
    unfolding w_def f_def i_def by (rule spec_count_three) simp_all
  with small Some have le: "w + f + i \<le> 2 ^ 53" by (simp add: series_of_def)
  have in_range: "int64 n = n" if "0 \<le> n" "n \<le> w + f + i" for n
    using that le by (simp add: int64_def)
  have exact: "to_double rnd n = of_int n" if "0 \<le> n" "n \<le> w + f + i" for n
    using that le by (simp add: to_double_def)
  have ws: "map_of s ''StrikeSwinging'' = None \<and> w = 0 \<or> map_of s ''StrikeSwinging'' = Some w"
    and fs: "map_of s ''FoulBall'' = None \<and> f = 0 \<or> map_of s ''FoulBall'' = Some f"
    and ips: "map_of s ''InPlay'' = None \<and> i = 0 \<or> map_of s ''InPlay'' = Some i"
    unfolding w_def f_def i_def by (auto simp: spec_count_single [OF ds] split: option.splits)
  \<comment> \<open>the accumulators of the code\<close>
  define whiffs where "whiffs = (case map_of s ''StrikeSwinging'' of None \<Rightarrow> PyInt 0
      | Some c \<Rightarrow> NpInt (int64 c))"
  define s1 where "s1 = (case map_of s ''StrikeSwinging'' of None \<Rightarrow> PyInt 0
      | Some c \<Rightarrow> num_add (PyInt 0) (NpInt (int64 c)))"
  define s2 where "s2 = (case map_of s ''FoulBall'' of None \<Rightarrow> s1
      | Some c \<Rightarrow> num_add s1 (NpInt (int64 c)))"
  define s3 where "s3 = (case map_of s ''InPlay'' of None \<Rightarrow> s2
      | Some c \<Rightarrow> num_add s2 (NpInt (int64 c)))"
  have code: "parse_whiff rnd name calls_by_pitch
      = (if 0 < num_val s3 then truediv rnd whiffs s3 else Inr NaN)"
    unfolding parse_whiff_def whiffs_def s1_def s2_def s3_def
    by (simp add: Some whiff_step contains_map_of loc_def split: option.splits)
  have v_whiffs: "num_val whiffs = w"
    using ws w f i by (auto simp: whiffs_def in_range)
  have v1: "num_val s1 = w"
    using ws w f i by (auto simp: s1_def in_range)
  have v2: "num_val s2 = w + f"
    using fs v1 w f i by (auto simp: s2_def in_range)
  have v3: "num_val s3 = w + f + i"
    using ips v2 w f i by (auto simp: s3_def in_range)
  have spec: "spec_whiff rnd name calls_by_pitch
      = (if w + f + i = 0 then NaN else Fin (rnd (of_int w / of_int (w + f + i))))"
    unfolding spec_whiff_def Let_def
    by (simp add: Some series_of_def three spec_ratio_def w_def [symmetric])
  show ?thesis
  proof (cases "w + f + i = 0")
    case True
    with code v3 spec show ?thesis by simp
  next
    case False
    with w f i have pos: "0 < w + f + i" by simp
    have np: "truediv rnd whiffs s3 = Inr (Fin (rnd (of_int w / of_int (w + f + i))))"
    proof (cases "\<exists>a b. whiffs = PyInt a \<and> s3 = PyInt b")
      case True
      then obtain a b where "whiffs = PyInt a" "s3 = PyInt b" by blast
      with v_whiffs v3 False show ?thesis by simp
    next
      case False
      then have "truediv rnd whiffs s3
          = Inr (np_truediv rnd (to_double rnd (num_val whiffs)) (to_double rnd (num_val s3)))"
        by (cases whiffs; cases s3) simp_all
      with v_whiffs v3 pos w f i show ?thesis
        by (simp add: np_truediv_def exact)
    qed
    with code v3 pos spec False show ?thesis by simp
  qed
qed

lemma parse_whiff_statcast_spec:
  "parse_whiff_statcast rnd name all_stats = Inr (spec_whiff_statcast rnd name all_stats)"
proof -
  have sw: "is_swing = (\<lambda>r. description r \<in> set ([''swinging_strike'', ''swinging_strike_blocked'']
      @ [''foul_tip'', ''foul'', ''foul_bunt'']
      @ [''hit_into_play'', ''hit_into_play_no_out'', ''hit_into_play_score'']))"
    by (auto simp: is_swing_def fun_eq_iff)
  have wh: "is_whiff = (\<lambda>r. description r \<in> set [''swinging_strike'', ''swinging_strike_blocked''])"
    by (auto simp: is_whiff_def fun_eq_iff)
  show ?thesis
    unfolding parse_whiff_statcast_def spec_whiff_statcast_def Let_def sw wh
    by (simp add: len_def spec_ratio_def)
qed

text \<open>
  C7. Both whiff aggregators return what the specification says: the count of the
  swinging outcomes over the count of the swinging outcomes, the fouls and the balls in
  play, for one pitch type, and not-a-number when there is no swing. For the
  proprietary feed the counts of the pitch type are a well-formed series: no label
  twice, no negative count.
\<close>

theorem whiff_aggregators_spec:
  assumes "distinct (index (series_of calls_by_pitch name))"
    and "list_all (\<lambda>c. 0 \<le> c) (map snd (series_of calls_by_pitch name))"
    and "spec_count [''StrikeSwinging'', ''FoulBall'', ''InPlay'']
           (series_of calls_by_pitch name) \<le> 2 ^ 53"
  shows "parse_whiff rnd name calls_by_pitch = Inr (spec_whiff rnd name calls_by_pitch)
     \<and> parse_whiff_statcast rnd name' all_stats = Inr (spec_whiff_statcast rnd name' all_stats)"
  using assms by (simp add: parse_whiff_spec parse_whiff_statcast_spec)

text \<open>Three whiffs in twelve swings; one in two; and a pitch type never thrown.\<close>

theorem whiff_aggregators_spec_witness:
  "distinct (index (series_of
      [''Fastball'' \<mapsto> [(''StrikeSwinging'', 3), (''FoulBall'', 4), (''InPlay'', 5),
          (''BallCalled'', 8)]] ''Fastball''))
   \<and> list_all (\<lambda>c. 0 \<le> c) (map snd (series_of
      [''Fastball'' \<mapsto> [(''StrikeSwinging'', 3), (''FoulBall'', 4), (''InPlay'', 5),
          (''BallCalled'', 8)]] ''Fastball''))
   \<and> spec_count [''StrikeSwinging'', ''FoulBall'', ''InPlay''] (series_of
      [''Fastball'' \<mapsto> [(''StrikeSwinging'', 3), (''FoulBall'', 4), (''InPlay'', 5),
          (''BallCalled'', 8)]] ''Fastball'') \<le> 2 ^ 53
   \<and> parse_whiff id ''Fastball''
      [''Fastball'' \<mapsto> [(''StrikeSwinging'', 3), (''FoulBall'', 4), (''InPlay'', 5),
          (''BallCalled'', 8)]] = Inr (Fin (1 / 4))
   \<and> parse_whiff_statcast id ''FF''
      [\<lparr>description = ''swinging_strike'', events = '''', strikes = 1, pitch_type = ''FF'',
        woba_value = None, woba_denom = None\<rparr>,
       \<lparr>description = ''foul'', events = '''', strikes = 1, pitch_type = ''FF'',
        woba_value = None, woba_denom = None\<rparr>,
       \<lparr>description = ''ball'', events = '''', strikes = 1, pitch_type = ''FF'',
        woba_value = None, woba_denom = None\<rparr>,
       \<lparr>description = ''swinging_strike'', events = '''', strikes = 1, pitch_type = ''SL'',
        woba_value = None, woba_denom = None\<rparr>] = Inr (Fin (1 / 2))
   \<and> parse_whiff id ''Slider''
      [''Fastball'' \<mapsto> [(''StrikeSwinging'', 3), (''FoulBall'', 4), (''InPlay'', 5),
          (''BallCalled'', 8)]] = Inr NaN
   \<and> parse_whiff_statcast id ''CU''
      [\<lparr>description = ''swinging_strike'', events = '''', strikes = 1, pitch_type = ''FF'',
        woba_value = None, woba_denom = None\<rparr>,
       \<lparr>description = ''foul'', events = '''', strikes = 1, pitch_type = ''FF'',
        woba_value = None, woba_denom = None\<rparr>,
       \<lparr>description = ''ball'', events = '''', strikes = 1, pitch_type = ''FF'',
        woba_value = None, woba_denom = None\<rparr>,
       \<lparr>description = ''swinging_strike'', events = '''', strikes = 1, pitch_type = ''SL'',
        woba_value = None, woba_denom = None\<rparr>] = Inr NaN"
  using whiff_aggregators_spec [of
      "[''Fastball'' \<mapsto> [(''StrikeSwinging'', 3), (''FoulBall'', 4), (''InPlay'', 5),
          (''BallCalled'', 8)]]" "''Fastball''" id "''FF''"
      "[\<lparr>description = ''swinging_strike'', events = '''', strikes = 1, pitch_type = ''FF'',
        woba_value = None, woba_denom = None\<rparr>,
       \<lparr>description = ''foul'', events = '''', strikes = 1, pitch_type = ''FF'',
        woba_value = None, woba_denom = None\<rparr>,
       \<lparr>description = ''ball'', events = '''', strikes = 1, pitch_type = ''FF'',
        woba_value = None, woba_denom = None\<rparr>,
       \<lparr>description = ''swinging_strike'', events = '''', strikes = 1, pitch_type = ''SL'',
        woba_value = None, woba_denom = None\<rparr>]"]
    whiff_aggregators_spec [of
      "[''Fastball'' \<mapsto> [(''StrikeSwinging'', 3), (''FoulBall'', 4), (''InPlay'', 5),
          (''BallCalled'', 8)]]" "''Slider''" id "''CU''"
      "[\<lparr>description = ''swinging_strike'', events = '''', strikes = 1, pitch_type = ''FF'',
        woba_value = None, woba_denom = None\<rparr>,
       \<lparr>description = ''foul'', events = '''', strikes = 1, pitch_type = ''FF'',
        woba_value = None, woba_denom = None\<rparr>,
       \<lparr>description = ''ball'', events = '''', strikes = 1, pitch_type = ''FF'',
        woba_value = None, woba_denom = None\<rparr>,
       \<lparr>description = ''swinging_strike'', events = '''', strikes = 1, pitch_type = ''SL'',
        woba_value = None, woba_denom = None\<rparr>]"]
  by (simp add: series_of_def index_def spec_whiff_def spec_whiff_statcast_def spec_count_def
      spec_ratio_def)


section \<open>The segmentation report\<close>

text \<open>
  A band with no pitch of the pitch type ends the report: \<open>clean/chances\<close> is a quotient
  of Python integers and \<open>chances\<close> is 0, while the whiff rate a few lines above is
  guarded. The frequencies of that pitch type are never printed, whatever the other
  bands hold.
\<close>

lemma bucket_empty:
  "filter (in_bucket pitch height) df = [] \<Longrightarrow>
   bucket rnd pitch df height = ([Info pitch height], Inl ZeroDivisionError)"
  by (simp add: bucket_def len_def Let_def)

lemma bucket_raises_zero_division:
  "snd (bucket rnd pitch df height) = Inl e \<Longrightarrow> e = ZeroDivisionError"
  by (auto simp: bucket_def len_def Let_def split: if_splits sum.splits)

lemma bucket_prints_no_frequencies:
  "Frequencies p fr \<notin> set (fst (bucket rnd pitch df height))"
  by (auto simp: bucket_def Let_def split: sum.splits)

lemma height_loop_empty_band:
  "height \<in> set heights \<Longrightarrow> filter (in_bucket pitch height) df = [] \<Longrightarrow>
   snd (height_loop rnd pitch df heights freqs) = Inl ZeroDivisionError
   \<and> Frequencies p fr \<notin> set (fst (height_loop rnd pitch df heights freqs))"
proof (induction heights arbitrary: freqs)
  case Nil
  then show ?case by simp
next
  case (Cons h hs)
  obtain out b where b: "bucket rnd pitch df h = (out, b)" by (cases "bucket rnd pitch df h")
  from bucket_prints_no_frequencies [of p fr rnd pitch df h] b
  have o: "Frequencies p fr \<notin> set out" by simp
  show ?case
  proof (cases b)
    case (Inl e)
    with b bucket_raises_zero_division [of rnd pitch df h e] have "e = ZeroDivisionError" by simp
    with b o Inl show ?thesis by simp
  next
    case (Inr n)
    with b Cons.prems bucket_empty [of pitch h df rnd] have "height \<in> set hs" by auto
    from Cons.IH [OF this Cons.prems(2), of "AList.update h n freqs"] b o Inr
    show ?thesis by (auto split: prod.splits)
  qed
qed

lemma pitch_report_empty_band:
  assumes "height \<in> set heights" and "filter (in_bucket pitch height) df = []"
  shows "snd (pitch_report rnd pitch df heights) = Some ZeroDivisionError
     \<and> Frequencies p fr \<notin> set (fst (pitch_report rnd pitch df heights))"
proof -
  obtain out r where l: "height_loop rnd pitch df heights [] = (out, r)"
    by (cases "height_loop rnd pitch df heights []")
  with height_loop_empty_band [OF assms, of rnd "[]" p fr]
  have "r = Inl ZeroDivisionError" "Frequencies p fr \<notin> set out" by simp_all
  with l show ?thesis by (simp add: pitch_report_def)
qed

text \<open>
  C9. The claim is that the frequencies printed for a pitch type sum to 1.0 whenever
  its buckets hold a pitch. With one fastball at height 1 and the bands from 0 to 2 and
  from 2 to 4, the buckets of the fastball hold one pitch; the second band is empty, the
  report ends in \<open>ZeroDivisionError\<close> at \<open>clean/chances\<close>, and no frequencies are
  printed for the fastball.
\<close>

theorem whiff_by_height_empty_band_raises:
  "0 < sum_list (map (\<lambda>height. length (filter (in_bucket ''Fastball'' height)
      [\<lparr>tagged_pitch_type = ''Fastball'', pitch_call = ''StrikeSwinging'', plate_loc_height = 1,
        plate_loc_side = 0, play_result = ''Undefined'', k_or_bb = ''Strikeout''\<rparr>]))
      [(0, 2), (2, 4)])
   \<and> snd (whiff_by_height rnd [''Fastball'']
      [\<lparr>tagged_pitch_type = ''Fastball'', pitch_call = ''StrikeSwinging'', plate_loc_height = 1,
        plate_loc_side = 0, play_result = ''Undefined'', k_or_bb = ''Strikeout''\<rparr>]
      [(0, 2), (2, 4)] False) = Some ZeroDivisionError
   \<and> (\<forall>fr. Frequencies ''Fastball'' fr \<notin> set (fst (whiff_by_height rnd [''Fastball'']
      [\<lparr>tagged_pitch_type = ''Fastball'', pitch_call = ''StrikeSwinging'', plate_loc_height = 1,
        plate_loc_side = 0, play_result = ''Undefined'', k_or_bb = ''Strikeout''\<rparr>]
      [(0, 2), (2, 4)] False)))"
  by (simp add: pitch_report_def bucket_def in_bucket_def len_def Let_def)

lemma update_pos:
  "list_all (\<lambda>c. (0::int) < c) (map snd al) \<Longrightarrow> 0 < v \<Longrightarrow>
   list_all (\<lambda>c. 0 < c) (map snd (AList.update k v al))"
  by (induction al) auto

lemma bucket_nonempty:
  "filter (in_bucket pitch height) df \<noteq> [] \<Longrightarrow>
   snd (bucket rnd pitch df height) = Inr (int (length (filter (in_bucket pitch height) df)))"
  by (simp add: bucket_def Let_def len_def split: sum.splits)

lemma height_loop_completes:
  "\<forall>height \<in> set heights. filter (in_bucket pitch height) df \<noteq> [] \<Longrightarrow>
   list_all (\<lambda>c. 0 < c) (map snd freqs) \<Longrightarrow>
   \<exists>freqs'. snd (height_loop rnd pitch df heights freqs) = Inr freqs'
      \<and> list_all (\<lambda>c. 0 < c) (map snd freqs')"
proof (induction heights arbitrary: freqs)
  case Nil
  then show ?case by simp
next
  case (Cons h hs)
  let ?n = "int (length (filter (in_bucket pitch h) df))"
  from Cons.prems(1) have ne: "filter (in_bucket pitch h) df \<noteq> []" by simp
  then have n: "0 < ?n" by simp
  obtain out where b: "bucket rnd pitch df h = (out, Inr ?n)"
    using bucket_nonempty [OF ne, of rnd] by (cases "bucket rnd pitch df h") simp
  from Cons.prems(2) n have "list_all (\<lambda>c. 0 < c) (map snd (AList.update h ?n freqs))"
    by (rule update_pos)
  with Cons.IH [of "AList.update h ?n freqs"] Cons.prems(1)
  obtain freqs' where "snd (height_loop rnd pitch df hs (AList.update h ?n freqs)) = Inr freqs'"
    and "list_all (\<lambda>c. 0 < c) (map snd freqs')" by auto
  with b show ?case by (auto split: prod.splits)
qed

lemma normalise_completes: "t \<noteq> 0 \<Longrightarrow> \<exists>fr. normalise rnd freqs t = Inr fr"
proof (induction freqs)
  case Nil
  show ?case by simp
next
  case (Cons p freqs)
  then obtain fr where "normalise rnd freqs t = Inr fr" by blast
  with Cons.prems show ?case by (cases p) simp
qed

lemma pos_sum: "list_all (\<lambda>c. (0::int) < c) ns \<Longrightarrow> ns \<noteq> [] \<Longrightarrow> 0 < sum_list ns"
proof (induction ns)
  case Nil
  then show ?case by simp
next
  case (Cons a ns)
  then have a: "0 < a" and p: "list_all (\<lambda>c. 0 < c) ns" by simp_all
  show ?case
  proof (cases "ns = []")
    case True
    with a show ?thesis by simp
  next
    case False
    with Cons.IH p have "0 < sum_list ns" by simp
    with a show ?thesis by simp
  qed
qed

lemma pitch_report_completes:
  assumes full: "\<forall>height \<in> set heights. filter (in_bucket pitch height) df \<noteq> []"
  shows "\<exists>out fr. pitch_report rnd pitch df heights = (out @ [Frequencies pitch fr], None)"
proof -
  from height_loop_completes [OF full, of "[]" rnd]
  obtain freqs where l: "snd (height_loop rnd pitch df heights []) = Inr freqs"
    and p: "list_all (\<lambda>c. 0 < c) (map snd freqs)" by auto
  then obtain out where o: "height_loop rnd pitch df heights [] = (out, Inr freqs)"
    by (cases "height_loop rnd pitch df heights []") simp
  show ?thesis
  proof (cases "freqs = []")
    case True
    with o show ?thesis by (simp add: pitch_report_def)
  next
    case False
    with p have "0 < sum_list (map snd freqs)" by (simp add: pos_sum)
    then have "sum_list (map snd freqs) \<noteq> 0" by simp
    from normalise_completes [OF this, of rnd freqs]
    obtain fr where "normalise rnd freqs (sum_list (map snd freqs)) = Inr fr" by blast
    with o show ?thesis by (simp add: pitch_report_def)
  qed
qed

text \<open>
  When no bucket of any pitch type of the list is empty, the report runs to its end and
  prints a line of frequencies for each pitch type.
\<close>

lemma whiff_by_height_completes:
  "\<forall>pitch \<in> set pitches. \<forall>height \<in> set heights. filter (in_bucket pitch height) df \<noteq> [] \<Longrightarrow>
   snd (whiff_by_height rnd pitches df heights putaway) = None
   \<and> (\<forall>pitch \<in> set pitches.
        \<exists>fr. Frequencies pitch fr \<in> set (fst (whiff_by_height rnd pitches df heights putaway)))"
proof (induction pitches)
  case Nil
  show ?case by simp
next
  case (Cons p ps)
  from Cons.prems have "\<forall>height \<in> set heights. filter (in_bucket p height) df \<noteq> []" by simp
  from pitch_report_completes [OF this, of rnd]
  obtain out fr where r: "pitch_report rnd p df heights = (out @ [Frequencies p fr], None)"
    by blast
  obtain out' r' where w: "whiff_by_height rnd ps df heights putaway = (out', r')"
    by (cases "whiff_by_height rnd ps df heights putaway")
  from Cons.IH Cons.prems w have ih: "r' = None"
    "\<forall>pitch \<in> set ps. \<exists>fr. Frequencies pitch fr \<in> set out'" by simp_all
  from r w ih show ?case by auto
qed

lemma update_nonempty: "AList.update k v al \<noteq> []"
  by (induction al) (auto split: if_splits)

lemma update_nonneg:
  "list_all (\<lambda>c. (0::int) \<le> c) (map snd al) \<Longrightarrow> 0 \<le> v \<Longrightarrow>
   list_all (\<lambda>c. 0 \<le> c) (map snd (AList.update k v al))"
  by (induction al) auto

lemma bucket_count_nonneg: "snd (bucket rnd pitch df height) = Inr n \<Longrightarrow> 0 \<le> n"
  by (auto simp: bucket_def Let_def split: sum.splits)

lemma height_loop_no_frequencies:
  "Frequencies p fr \<notin> set (fst (height_loop rnd pitch df heights freqs))"
proof (induction heights arbitrary: freqs)
  case Nil
  show ?case by simp
next
  case (Cons h hs)
  obtain out b where b: "bucket rnd pitch df h = (out, b)" by (cases "bucket rnd pitch df h")
  from bucket_prints_no_frequencies [of p fr rnd pitch df h] b
  have o: "Frequencies p fr \<notin> set out" by simp
  show ?case
  proof (cases b)
    case (Inl e)
    with b o show ?thesis by simp
  next
    case (Inr n)
    obtain out' r where l: "height_loop rnd pitch df hs (AList.update h n freqs) = (out', r)"
      by (cases "height_loop rnd pitch df hs (AList.update h n freqs)")
    from Cons.IH [of "AList.update h n freqs"] l have "Frequencies p fr \<notin> set out'" by simp
    with b o Inr l show ?thesis by simp
  qed
qed

lemma height_loop_freqs:
  "snd (height_loop rnd pitch df heights freqs) = Inr freqs' \<Longrightarrow>
   list_all (\<lambda>c. 0 \<le> c) (map snd freqs) \<Longrightarrow>
   list_all (\<lambda>c. 0 \<le> c) (map snd freqs') \<and> (heights \<noteq> [] \<or> freqs \<noteq> [] \<longrightarrow> freqs' \<noteq> [])"
proof (induction heights arbitrary: freqs)
  case Nil
  then show ?case by simp
next
  case (Cons h hs)
  obtain out b where b: "bucket rnd pitch df h = (out, b)" by (cases "bucket rnd pitch df h")
  show ?case
  proof (cases b)
    case (Inl e)
    with b Cons.prems show ?thesis by simp
  next
    case (Inr n)
    obtain out' r where l: "height_loop rnd pitch df hs (AList.update h n freqs) = (out', r)"
      by (cases "height_loop rnd pitch df hs (AList.update h n freqs)")
    from b Inr have "0 \<le> n" using bucket_count_nonneg [of rnd pitch df h n] by simp
    with Cons.prems(2) have nn: "list_all (\<lambda>c. 0 \<le> c) (map snd (AList.update h n freqs))"
      by (simp add: update_nonneg)
    from Cons.prems(1) b Inr l have "snd (height_loop rnd pitch df hs (AList.update h n freqs)) = Inr freqs'"
      by simp
    from Cons.IH [OF this nn] show ?thesis by (simp add: update_nonempty)
  qed
qed

lemma normalise_values:
  "normalise rnd freqs t = Inr fr \<Longrightarrow>
   (freqs \<noteq> [] \<longrightarrow> t \<noteq> 0)
   \<and> map snd fr = map (\<lambda>n. Fin (rnd (of_int n / of_int t))) (map snd freqs)"
proof (induction freqs arbitrary: fr)
  case Nil
  then show ?case by simp
next
  case (Cons p freqs)
  obtain h n where p: "p = (h, n)" by (cases p)
  from Cons.prems p have t: "t \<noteq> 0" by (auto split: if_splits)
  from Cons.prems p t obtain rest where r: "normalise rnd freqs t = Inr rest"
    and fr: "fr = (h, Fin (rnd (of_int n / of_int t))) # rest"
    by (cases "normalise rnd freqs t") auto
  from Cons.IH [OF r] fr p t show ?case by simp
qed

lemma pitch_report_frequencies:
  assumes "Frequencies p fr \<in> set (fst (pitch_report rnd pitch df heights))"
  shows "\<exists>freqs. normalise rnd freqs (sum_list (map snd freqs)) = Inr fr
           \<and> list_all (\<lambda>c. 0 \<le> c) (map snd freqs) \<and> (heights \<noteq> [] \<longrightarrow> freqs \<noteq> [])"
proof -
  obtain out r where l: "height_loop rnd pitch df heights [] = (out, r)"
    by (cases "height_loop rnd pitch df heights []")
  from height_loop_no_frequencies [of p fr rnd pitch df heights "[]"] l
  have o: "Frequencies p fr \<notin> set out" by simp
  show ?thesis
  proof (cases r)
    case (Inl e)
    with assms l o show ?thesis by (simp add: pitch_report_def)
  next
    case (Inr freqs)
    with l have "snd (height_loop rnd pitch df heights []) = Inr freqs" by simp
    from height_loop_freqs [OF this]
    have f: "list_all (\<lambda>c. 0 \<le> c) (map snd freqs)" "heights \<noteq> [] \<longrightarrow> freqs \<noteq> []" by simp_all
    from assms l o Inr have "normalise rnd freqs (sum_list (map snd freqs)) = Inr fr"
      by (auto simp: pitch_report_def Let_def split: sum.splits)
    with f show ?thesis by blast
  qed
qed

lemma whiff_by_height_frequencies:
  "Frequencies p fr \<in> set (fst (whiff_by_height rnd pitches df heights putaway)) \<Longrightarrow>
   \<exists>pitch. Frequencies p fr \<in> set (fst (pitch_report rnd pitch df heights))"
proof (induction pitches)
  case Nil
  then show ?case by simp
next
  case (Cons pitch pitches)
  obtain out r where pr: "pitch_report rnd pitch df heights = (out, r)"
    by (cases "pitch_report rnd pitch df heights")
  show ?case
  proof (cases "Frequencies p fr \<in> set out")
    case True
    with pr have "Frequencies p fr \<in> set (fst (pitch_report rnd pitch df heights))" by simp
    then show ?thesis by blast
  next
    case False
    obtain out' r' where w: "whiff_by_height rnd pitches df heights putaway = (out', r')"
      by (cases "whiff_by_height rnd pitches df heights putaway")
    from Cons.prems pr False w have "Frequencies p fr \<in> set out'"
      by (cases r) auto
    with w Cons.IH show ?thesis by simp
  qed
qed

lemma rounded_sum:
  fixes rnd :: "rat \<Rightarrow> rat"
  assumes acc: "\<forall>q. \<bar>rnd q - q\<bar> \<le> eps * \<bar>q\<bar>"
  shows "list_all (\<lambda>q. 0 \<le> q) qs \<Longrightarrow> \<bar>sum_list (map rnd qs) - sum_list qs\<bar> \<le> eps * sum_list qs"
proof (induction qs)
  case Nil
  show ?case by simp
next
  case (Cons q qs)
  then have q: "0 \<le> q" and ih: "\<bar>sum_list (map rnd qs) - sum_list qs\<bar> \<le> eps * sum_list qs"
    by simp_all
  from acc have "\<bar>rnd q - q\<bar> \<le> eps * \<bar>q\<bar>" by blast
  with q have a: "\<bar>rnd q - q\<bar> \<le> eps * q" by simp
  have "\<bar>sum_list (map rnd (q # qs)) - sum_list (q # qs)\<bar>
        = \<bar>(rnd q - q) + (sum_list (map rnd qs) - sum_list qs)\<bar>" by simp
  also have "\<dots> \<le> \<bar>rnd q - q\<bar> + \<bar>sum_list (map rnd qs) - sum_list qs\<bar>" by (rule abs_triangle_ineq)
  also from a ih have "\<dots> \<le> eps * q + eps * sum_list qs" by simp
  finally show ?case by (simp add: distrib_left)
qed

lemma quotients_sum:
  "sum_list (map (\<lambda>n. (of_int n :: rat) / of_int t) ns) = of_int (sum_list ns) / of_int t"
  by (induction ns) (simp_all add: add_divide_distrib)

lemma normalised_sum:
  fixes rnd :: "rat \<Rightarrow> rat"
  assumes acc: "\<forall>q. \<bar>rnd q - q\<bar> \<le> eps * \<bar>q\<bar>"
    and nn: "list_all (\<lambda>c. 0 \<le> c) ns" and pos: "0 < sum_list ns"
  shows "\<bar>sum_list (map (\<lambda>n. rnd (of_int n / of_int (sum_list ns))) ns) - 1\<bar> \<le> eps"
proof -
  define t where "t = sum_list ns"
  define qs where "qs = map (\<lambda>n. (of_int n :: rat) / of_int t) ns"
  from nn pos have "list_all (\<lambda>q. 0 \<le> q) qs"
    unfolding qs_def t_def by (induction ns) (auto simp: list_all_iff)
  from rounded_sum [OF acc this]
  have "\<bar>sum_list (map rnd qs) - sum_list qs\<bar> \<le> eps * sum_list qs" .
  moreover from pos have "sum_list qs = 1" unfolding qs_def quotients_sum t_def by simp
  moreover have "map rnd qs = map (\<lambda>n. rnd (of_int n / of_int (sum_list ns))) ns"
    by (simp add: qs_def t_def)
  ultimately show ?thesis by simp
qed

text \<open>
  What the normalisation does when it is reached: every line of frequencies that the
  report prints sums to 1 within the tolerance of the rounding. If each quotient is
  rounded with relative error at most \<open>eps\<close>, the sum of the printed frequencies is
  within \<open>eps\<close> of 1.
\<close>

lemma frequencies_sum_to_one:
  fixes rnd :: "rat \<Rightarrow> rat"
  assumes acc: "\<forall>q. \<bar>rnd q - q\<bar> \<le> eps * \<bar>q\<bar>"
    and run: "whiff_by_height rnd pitches df heights putaway = (out, r)"
    and emitted: "Frequencies pitch fr \<in> set out"
    and positive: "0 < sum_list (map (\<lambda>height. length (filter (in_bucket pitch height) df)) heights)"
  shows "\<exists>qs. map snd fr = map Fin qs \<and> \<bar>sum_list qs - 1\<bar> \<le> eps"
proof -
  from positive have hs: "heights \<noteq> []" by auto
  from run emitted have "Frequencies pitch fr \<in> set (fst (whiff_by_height rnd pitches df heights putaway))"
    by simp
  then obtain p' where "Frequencies pitch fr \<in> set (fst (pitch_report rnd p' df heights))"
    using whiff_by_height_frequencies by blast
  from pitch_report_frequencies [OF this] hs obtain freqs
    where n: "normalise rnd freqs (sum_list (map snd freqs)) = Inr fr"
      and nn: "list_all (\<lambda>c. 0 \<le> c) (map snd freqs)" and ne: "freqs \<noteq> []"
    by blast
  from normalise_values [OF n] ne
  have t: "sum_list (map snd freqs) \<noteq> 0"
    and v: "map snd fr = map (\<lambda>n. Fin (rnd (of_int n / of_int (sum_list (map snd freqs))))) (map snd freqs)"
    by simp_all
  from nn have "0 \<le> sum_list (map snd freqs)" by (induction freqs) auto
  with t have pos: "0 < sum_list (map snd freqs)" by simp
  let ?qs = "map (\<lambda>n. rnd (of_int n / of_int (sum_list (map snd freqs)))) (map snd freqs)"
  from v have "map snd fr = map Fin ?qs" by simp
  moreover from normalised_sum [OF acc nn pos] have "\<bar>sum_list ?qs - 1\<bar> \<le> eps" .
  ultimately show ?thesis by blast
qed

lemma rounding_example: "\<forall>q::rat. \<bar>q * (1025 / 1024) - q\<bar> \<le> 1 / 1024 * \<bar>q\<bar>"
proof
  fix q :: rat
  have "q * (1025 / 1024) - q = q * (1 / 1024)" by (simp add: field_simps)
  then show "\<bar>q * (1025 / 1024) - q\<bar> \<le> 1 / 1024 * \<bar>q\<bar>" by (simp add: abs_mult)
qed

lemma report_example:
  "Frequencies ''Fastball'' [((0, 2), Fin (1025 / 3072)), ((2, 4), Fin (1025 / 1536))]
     \<in> set (fst (whiff_by_height (\<lambda>q. q * (1025 / 1024)) [''Fastball'']
      [\<lparr>tagged_pitch_type = ''Fastball'', pitch_call = ''StrikeSwinging'', plate_loc_height = 1,
         plate_loc_side = 0, play_result = ''Undefined'', k_or_bb = ''Strikeout''\<rparr>,
       \<lparr>tagged_pitch_type = ''Fastball'', pitch_call = ''BallCalled'', plate_loc_height = 3,
         plate_loc_side = 0, play_result = ''Undefined'', k_or_bb = ''Undefined''\<rparr>,
       \<lparr>tagged_pitch_type = ''Fastball'', pitch_call = ''InPlay'', plate_loc_height = 7 / 2,
         plate_loc_side = 1, play_result = ''Single'', k_or_bb = ''Undefined''\<rparr>]
      [(0, 2), (2, 4)] False))"
  by (simp add: pitch_report_def bucket_def in_bucket_def len_def Let_def)

text \<open>
  One fastball in the band from 0 to 2, two in the band from 2 to 4, and a rounding that
  errs by one part in 1024: the printed frequencies sum to 1 + 1/1024.
\<close>

lemma frequencies_sum_to_one_example:
  "(\<forall>q::rat. \<bar>q * (1025 / 1024) - q\<bar> \<le> 1 / 1024 * \<bar>q\<bar>)
   \<and> Frequencies ''Fastball'' [((0, 2), Fin (1025 / 3072)), ((2, 4), Fin (1025 / 1536))]
     \<in> set (fst (whiff_by_height (\<lambda>q. q * (1025 / 1024)) [''Fastball'']
      [\<lparr>tagged_pitch_type = ''Fastball'', pitch_call = ''StrikeSwinging'', plate_loc_height = 1,
         plate_loc_side = 0, play_result = ''Undefined'', k_or_bb = ''Strikeout''\<rparr>,
       \<lparr>tagged_pitch_type = ''Fastball'', pitch_call = ''BallCalled'', plate_loc_height = 3,
         plate_loc_side = 0, play_result = ''Undefined'', k_or_bb = ''Undefined''\<rparr>,
       \<lparr>tagged_pitch_type = ''Fastball'', pitch_call = ''InPlay'', plate_loc_height = 7 / 2,
         plate_loc_side = 1, play_result = ''Single'', k_or_bb = ''Undefined''\<rparr>]
      [(0, 2), (2, 4)] False))
   \<and> 0 < sum_list (map (\<lambda>height. length (filter (in_bucket ''Fastball'' height)
      [\<lparr>tagged_pitch_type = ''Fastball'', pitch_call = ''StrikeSwinging'', plate_loc_height = 1,
         plate_loc_side = 0, play_result = ''Undefined'', k_or_bb = ''Strikeout''\<rparr>,
       \<lparr>tagged_pitch_type = ''Fastball'', pitch_call = ''BallCalled'', plate_loc_height = 3,
         plate_loc_side = 0, play_result = ''Undefined'', k_or_bb = ''Undefined''\<rparr>,
       \<lparr>tagged_pitch_type = ''Fastball'', pitch_call = ''InPlay'', plate_loc_height = 7 / 2,
         plate_loc_side = 1, play_result = ''Single'', k_or_bb = ''Undefined''\<rparr>]))
      [(0, 2), (2, 4)])
   \<and> (\<exists>qs. map snd [((0, 2), Fin (1025 / 3072)), ((2, 4), Fin (1025 / 1536))] = map Fin qs
         \<and> \<bar>sum_list qs - 1\<bar> \<le> 1 / 1024)"
  using frequencies_sum_to_one [of "\<lambda>q. q * (1025 / 1024)" "1 / 1024" "[''Fastball'']"
      "[\<lparr>tagged_pitch_type = ''Fastball'', pitch_call = ''StrikeSwinging'', plate_loc_height = 1,
         plate_loc_side = 0, play_result = ''Undefined'', k_or_bb = ''Strikeout''\<rparr>,
       \<lparr>tagged_pitch_type = ''Fastball'', pitch_call = ''BallCalled'', plate_loc_height = 3,
         plate_loc_side = 0, play_result = ''Undefined'', k_or_bb = ''Undefined''\<rparr>,
       \<lparr>tagged_pitch_type = ''Fastball'', pitch_call = ''InPlay'', plate_loc_height = 7 / 2,
         plate_loc_side = 1, play_result = ''Single'', k_or_bb = ''Undefined''\<rparr>]"
      "[(0, 2), (2, 4)]" False
      "fst (whiff_by_height (\<lambda>q. q * (1025 / 1024)) [''Fastball'']
      [\<lparr>tagged_pitch_type = ''Fastball'', pitch_call = ''StrikeSwinging'', plate_loc_height = 1,
         plate_loc_side = 0, play_result = ''Undefined'', k_or_bb = ''Strikeout''\<rparr>,
       \<lparr>tagged_pitch_type = ''Fastball'', pitch_call = ''BallCalled'', plate_loc_height = 3,
         plate_loc_side = 0, play_result = ''Undefined'', k_or_bb = ''Undefined''\<rparr>,
       \<lparr>tagged_pitch_type = ''Fastball'', pitch_call = ''InPlay'', plate_loc_height = 7 / 2,
         plate_loc_side = 1, play_result = ''Single'', k_or_bb = ''Undefined''\<rparr>]
      [(0, 2), (2, 4)] False)"
      "snd (whiff_by_height (\<lambda>q. q * (1025 / 1024)) [''Fastball'']
      [\<lparr>tagged_pitch_type = ''Fastball'', pitch_call = ''StrikeSwinging'', plate_loc_height = 1,
         plate_loc_side = 0, play_result = ''Undefined'', k_or_bb = ''Strikeout''\<rparr>,
       \<lparr>tagged_pitch_type = ''Fastball'', pitch_call = ''BallCalled'', plate_loc_height = 3,
         plate_loc_side = 0, play_result = ''Undefined'', k_or_bb = ''Undefined''\<rparr>,
       \<lparr>tagged_pitch_type = ''Fastball'', pitch_call = ''InPlay'', plate_loc_height = 7 / 2,
         plate_loc_side = 1, play_result = ''Single'', k_or_bb = ''Undefined''\<rparr>]
      [(0, 2), (2, 4)] False)"
      "''Fastball''" "[((0, 2), Fin (1025 / 3072)), ((2, 4), Fin (1025 / 1536))]"]
    rounding_example report_example
  by (simp add: in_bucket_def)

end
